theory Spec2Isabelle
  imports Main "HOL-Library.Sublist" "HOL-Library.Monad_Syntax"
begin

section \<open>JavaScript values of the package documentation server\<close>

text \<open>
  The handlers of \<^verbatim>\<open>src/index.ts\<close> read the registries' answers with untyped property
  access, so the model keeps JavaScript's dynamic values. A value is what
  \<^verbatim>\<open>JSON.parse\<close> can produce, \<^verbatim>\<open>undefined\<close> (the result of reading an absent
  property), or a built-in function or prototype object reached through the prototype
  chain.

  \<^item> A string is a \<open>string\<close>; the program only concatenates, searches and indexes strings.
  \<^item> A number is kept as the text \<^verbatim>\<open>Number.prototype.toString\<close> prints for it
    (\<open>''3''\<close>, \<open>''0.5''\<close>, \<open>''1e+21''\<close>, \<open>''-2''\<close>, \<open>''Infinity''\<close>): the program never
    calculates with a number, it only prints it, tests it for truth and compares it
    with zero, and all three can be read off that text.
  \<^item> An object is the list of its own properties in creation order, with distinct keys.
\<close>

datatype jsval =
    JUndefined
  | JNull
  | JBool bool
  | JNum string
  | JStr string
  | JArr "jsval list"
  | JObj "(string \<times> jsval) list"
  | JBuiltin

text \<open>A runtime fault (every one this program can raise is a \<^verbatim>\<open>TypeError\<close>) is \<open>None\<close>.\<close>

type_synonym 'a js = "'a option"

subsection \<open>Decimal numerals\<close>

definition digit_char :: "nat \<Rightarrow> char" where
  "digit_char d = ''0123456789'' ! d"

fun show_nat :: "nat \<Rightarrow> string" where
  "show_nat n = (if n < 10 then [digit_char n] else show_nat (n div 10) @ [digit_char (n mod 10)])"

declare show_nat.simps [simp del]

definition is_digit :: "char \<Rightarrow> bool" where
  "is_digit c = (of_char CHR ''0'' \<le> (of_char c :: nat) \<and> (of_char c :: nat) \<le> of_char CHR ''9'')"

definition digit_val :: "char \<Rightarrow> nat" where
  "digit_val c = of_char c - of_char CHR ''0''"

definition digits_val :: "string \<Rightarrow> nat" where
  "digits_val s = foldl (\<lambda>acc c. 10 * acc + digit_val c) 0 s"

text \<open>
  An array index is a property key that is the canonical decimal numeral of an integer
  below \<open>2^32 - 1\<close>: digits only, and no leading zero except in \<open>''0''\<close> itself.
\<close>

definition is_canonical_numeral :: "string \<Rightarrow> bool" where
  "is_canonical_numeral s =
     (case s of [] \<Rightarrow> False
      | c # cs \<Rightarrow> list_all is_digit s \<and> (cs = [] \<or> (of_char CHR ''0'' :: nat) < of_char c))"

definition is_array_index :: "string \<Rightarrow> bool" where
  "is_array_index s = (is_canonical_numeral s \<and> digits_val s < 2 ^ 32 - 1)"

subsection \<open>Conversions\<close>

text \<open>\<^verbatim>\<open>ToBoolean\<close>: the test of every \<^verbatim>\<open>if (x)\<close> of the handlers.\<close>

fun truthy :: "jsval \<Rightarrow> bool" where
  "truthy JUndefined = False"
| "truthy JNull = False"
| "truthy (JBool b) = b"
| "truthy (JNum n) = (n \<noteq> ''0'' \<and> n \<noteq> ''NaN'')"
| "truthy (JStr s) = (s \<noteq> [])"
| "truthy (JArr xs) = True"
| "truthy (JObj kvs) = True"
| "truthy JBuiltin = True"

text \<open>\<^verbatim>\<open>sep\<close> between the elements, as \<^verbatim>\<open>Array.prototype.join\<close> places it.\<close>

fun intercalate :: "string \<Rightarrow> string list \<Rightarrow> string" where
  "intercalate sep [] = []"
| "intercalate sep [x] = x"
| "intercalate sep (x # y # ys) = x @ sep @ intercalate sep (y # ys)"

text \<open>
  \<^verbatim>\<open>ToString\<close>, which every \<^verbatim>\<open>${...}\<close> of a template literal applies.
  An array prints as its elements joined by a comma, \<^verbatim>\<open>null\<close> and \<^verbatim>\<open>undefined\<close>
  elements as the empty string. An object prints through \<^verbatim>\<open>Object.prototype.toString\<close>
  as \<^verbatim>\<open>[object Object]\<close>, unless it has an own property \<^verbatim>\<open>toString\<close>: a parsed
  value is never callable, \<^verbatim>\<open>valueOf\<close> then gives no primitive either, and the
  conversion throws a \<^verbatim>\<open>TypeError\<close>. The handlers never print a built-in
  (they only read properties of one); its text is the form engines print for a native
  function.
\<close>

fun to_string :: "jsval \<Rightarrow> string js" where
  "to_string JUndefined = Some ''undefined''"
| "to_string JNull = Some ''null''"
| "to_string (JBool b) = Some (if b then ''true'' else ''false'')"
| "to_string (JNum n) = Some n"
| "to_string (JStr s) = Some s"
| "to_string (JArr xs) =
     map_option (intercalate '','')
       (those (map (\<lambda>x. if x = JUndefined \<or> x = JNull then Some [] else to_string x) xs))"
| "to_string (JObj kvs) =
     (if ''toString'' \<in> set (map fst kvs) then None else Some ''[object Object]'')"
| "to_string JBuiltin = Some ''function () { [native code] }''"

subsection \<open>Property access\<close>

text \<open>
  \<open>get_prop v k\<close> is \<^verbatim>\<open>v.k\<close> for the property names the handlers write in the source.
  Reading a property of \<^verbatim>\<open>undefined\<close> or \<^verbatim>\<open>null\<close> throws. An object gives its own
  property; an array and a string give \<^verbatim>\<open>length\<close> and their elements. None of the
  names the handlers read this way is a property of a built-in prototype
  (\<^verbatim>\<open>join\<close> and \<^verbatim>\<open>replace\<close> are, and are method calls: see \<open>call_join\<close> and
  \<open>call_replace\<close>), so every other read gives \<^verbatim>\<open>undefined\<close>.
\<close>

fun get_prop :: "jsval \<Rightarrow> string \<Rightarrow> jsval js" where
  "get_prop JUndefined k = None"
| "get_prop JNull k = None"
| "get_prop (JObj kvs) k = Some (case map_of kvs k of Some v \<Rightarrow> v | None \<Rightarrow> JUndefined)"
| "get_prop (JArr xs) k =
     Some (if k = ''length'' then JNum (show_nat (length xs))
           else if is_array_index k \<and> digits_val k < length xs then xs ! digits_val k
           else JUndefined)"
| "get_prop (JStr s) k =
     Some (if k = ''length'' then JNum (show_nat (length s))
           else if is_canonical_numeral k \<and> digits_val k < length s then JStr [s ! digits_val k]
           else JUndefined)"
| "get_prop (JBool b) k = Some JUndefined"
| "get_prop (JNum n) k = Some JUndefined"
| "get_prop JBuiltin k = Some JUndefined"

text \<open>Optional chaining \<^verbatim>\<open>v?.k\<close>: \<^verbatim>\<open>undefined\<close> when \<open>v\<close> is \<^verbatim>\<open>undefined\<close> or \<^verbatim>\<open>null\<close>.\<close>

definition opt_chain :: "jsval \<Rightarrow> string \<Rightarrow> jsval js" where
  "opt_chain v k = (if v = JUndefined \<or> v = JNull then Some JUndefined else get_prop v k)"

fun has_own :: "jsval \<Rightarrow> string \<Rightarrow> bool" where
  "has_own (JObj kvs) k = (k \<in> set (map fst kvs))"
| "has_own (JArr xs) k = (k = ''length'' \<or> is_array_index k \<and> digits_val k < length xs)"
| "has_own (JStr s) k = (k = ''length'' \<or> is_canonical_numeral k \<and> digits_val k < length s)"
| "has_own v k = False"

text \<open>
  What the JavaScript engine supplies and the repository does not contain:
  \<^item> \<open>inherited v k\<close>: the prototype chain of \<open>v\<close> (\<^verbatim>\<open>Object.prototype\<close>,
    \<^verbatim>\<open>Array.prototype\<close>, \<^verbatim>\<open>String.prototype\<close>, ...) has a property named \<open>k\<close>, as
    it has \<^verbatim>\<open>toString\<close> or \<^verbatim>\<open>constructor\<close>;
  \<^item> \<open>StringToNumber s\<close>: the number that the text \<open>s\<close> converts to, as the text
    printed for that number (\<open>''NaN''\<close> when \<open>s\<close> is no numeral).
\<close>

record engine =
  inherited :: "jsval \<Rightarrow> string \<Rightarrow> bool"
  StringToNumber :: "string \<Rightarrow> string"

text \<open>
  \<open>get_elem eng v k\<close> is \<^verbatim>\<open>v[k]\<close> for a key computed at run time, which can name
  anything: an own property first, then the prototype chain, whose properties are
  built-in functions and objects.
\<close>

definition get_elem :: "engine \<Rightarrow> jsval \<Rightarrow> string \<Rightarrow> jsval js" where
  "get_elem eng v k =
     (if v = JUndefined \<or> v = JNull then None
      else if has_own v k then get_prop v k
      else if inherited eng v k then Some JBuiltin
      else Some JUndefined)"

text \<open>
  \<^verbatim>\<open>Object.entries\<close>: the own enumerable properties, array indices first in ascending
  numeric order, then the other keys in creation order. An array and a string list their
  elements; a number and a boolean have none.
\<close>

fun Object_entries :: "jsval \<Rightarrow> (string \<times> jsval) list js" where
  "Object_entries JUndefined = None"
| "Object_entries JNull = None"
| "Object_entries (JObj kvs) =
     Some (sort_key (\<lambda>kv. digits_val (fst kv)) (filter (\<lambda>kv. is_array_index (fst kv)) kvs)
           @ filter (\<lambda>kv. \<not> is_array_index (fst kv)) kvs)"
| "Object_entries (JArr xs) = Some (zip (map show_nat [0..<length xs]) xs)"
| "Object_entries (JStr s) = Some (zip (map show_nat [0..<length s]) (map (\<lambda>c. JStr [c]) s))"
| "Object_entries (JBool b) = Some []"
| "Object_entries (JNum n) = Some []"
| "Object_entries JBuiltin = Some []"

subsection \<open>Methods and operators\<close>

text \<open>
  \<^verbatim>\<open>String.prototype.replace\<close> with a string pattern and a replacement that holds no
  \<^verbatim>\<open>$\<close>: the first occurrence of the pattern, wherever it is, is replaced.
\<close>

fun replace_first :: "string \<Rightarrow> string \<Rightarrow> string \<Rightarrow> string" where
  "replace_first pat rep [] = (if pat = [] then rep else [])"
| "replace_first pat rep (c # cs) =
     (if prefix pat (c # cs) then rep @ drop (length pat) (c # cs)
      else c # replace_first pat rep cs)"

text \<open>
  \<^verbatim>\<open>v.replace(pat, rep)\<close>: only a string has the method; on any other value the
  property is \<^verbatim>\<open>undefined\<close> or a parsed value, and the call throws.
\<close>

fun call_replace :: "jsval \<Rightarrow> string \<Rightarrow> string \<Rightarrow> string js" where
  "call_replace (JStr s) pat rep = Some (replace_first pat rep s)"
| "call_replace v pat rep = None"

text \<open>
  \<^verbatim>\<open>v.join(sep)\<close>: only an array has the method. \<^verbatim>\<open>null\<close> and \<^verbatim>\<open>undefined\<close>
  elements print as the empty string.
\<close>

fun call_join :: "jsval \<Rightarrow> string \<Rightarrow> string js" where
  "call_join (JArr xs) sep =
     map_option (intercalate sep)
       (those (map (\<lambda>x. if x = JUndefined \<or> x = JNull then Some [] else to_string x) xs))"
| "call_join v sep = None"

text \<open>A printed number is greater than zero.\<close>

definition num_positive :: "string \<Rightarrow> bool" where
  "num_positive n = (n \<noteq> [] \<and> hd n \<noteq> CHR ''-'' \<and> n \<noteq> ''0'' \<and> n \<noteq> ''NaN'')"

text \<open>
  \<^verbatim>\<open>v > 0\<close>: \<open>v\<close> is converted to a number (\<^verbatim>\<open>undefined\<close> to \<^verbatim>\<open>NaN\<close>, \<^verbatim>\<open>null\<close>
  to 0, \<^verbatim>\<open>true\<close> to 1, a string by \<open>StringToNumber\<close>, an object or array through its
  text) and compared.
\<close>

fun greater_zero :: "engine \<Rightarrow> jsval \<Rightarrow> bool js" where
  "greater_zero eng JUndefined = Some False"
| "greater_zero eng JNull = Some False"
| "greater_zero eng (JBool b) = Some b"
| "greater_zero eng (JNum n) = Some (num_positive n)"
| "greater_zero eng (JStr s) = Some (num_positive (StringToNumber eng s))"
| "greater_zero eng v = map_option (\<lambda>s. num_positive (StringToNumber eng s)) (to_string v)"

section \<open>The capability list\<close>

text \<open>The answer of the \<^verbatim>\<open>ListToolsRequestSchema\<close> handler (lines 43-76).\<close>

record property_schema =
  prop_type :: string
  prop_description :: string

record input_schema =
  schema_type :: string
  properties :: "(string \<times> property_schema) list"
  required :: "string list"

record tool =
  tool_name :: string
  tool_description :: string
  inputSchema :: input_schema

definition ListTools :: "tool list" where
  "ListTools =
     [\<lparr>tool_name = ''get_npm_docs'',
       tool_description = ''Get documentation and information for an npm package'',
       inputSchema = \<lparr>schema_type = ''object'',
         properties = [(''package_name'',
           \<lparr>prop_type = ''string'', prop_description = ''Name of the npm package''\<rparr>)],
         required = [''package_name'']\<rparr>\<rparr>,
      \<lparr>tool_name = ''get_pypi_docs'',
       tool_description = ''Get documentation and information for a Python package from PyPI'',
       inputSchema = \<lparr>schema_type = ''object'',
         properties = [(''package_name'',
           \<lparr>prop_type = ''string'', prop_description = ''Name of the Python package''\<rparr>)],
         required = [''package_name'']\<rparr>\<rparr>]"

section \<open>Rendering\<close>

subsection \<open>The npm document (lines 89-115)\<close>

text \<open>
  Each block below is one statement of the handler and gives the text that the statement
  appends to \<^verbatim>\<open>docs\<close>: the empty text when its \<^verbatim>\<open>if\<close> is not taken.
\<close>

text \<open>Lines 89-90: the latest version and its entry in \<^verbatim>\<open>versions\<close>.\<close>

definition npm_latest :: "engine \<Rightarrow> jsval \<Rightarrow> (jsval \<times> jsval) js" where
  "npm_latest eng data = do {
     dist_tags \<leftarrow> get_prop data ''dist-tags'';
     latestVersion \<leftarrow> get_prop dist_tags ''latest'';
     versions \<leftarrow> get_prop data ''versions'';
     key \<leftarrow> to_string latestVersion;
     latestData \<leftarrow> get_elem eng versions key;
     Some (latestVersion, latestData)
   }"

definition npm_title :: "jsval \<Rightarrow> jsval \<Rightarrow> string js" where
  "npm_title data latestVersion = do {
     name \<leftarrow> get_prop data ''name'';
     n \<leftarrow> to_string name;
     v \<leftarrow> to_string latestVersion;
     Some (''# '' @ n @ '' v'' @ v @ ''\<newline>\<newline>'')
   }"

definition npm_description :: "jsval \<Rightarrow> string js" where
  "npm_description data = do {
     description \<leftarrow> get_prop data ''description'';
     if truthy description
     then do { d \<leftarrow> to_string description; Some (d @ ''\<newline>\<newline>'') }
     else Some []
   }"

definition npm_installation :: "jsval \<Rightarrow> string js" where
  "npm_installation package_name = do {
     p \<leftarrow> to_string package_name;
     Some (''## Installation\<newline>\<newline>```bash\<newline>npm install '' @ p @ ''\<newline>```\<newline>\<newline>'')
   }"

definition npm_homepage :: "jsval \<Rightarrow> string js" where
  "npm_homepage latestData = do {
     homepage \<leftarrow> get_prop latestData ''homepage'';
     if truthy homepage
     then do { h \<leftarrow> to_string homepage; Some (''## Homepage\<newline>'' @ h @ ''\<newline>\<newline>'') }
     else Some []
   }"

definition npm_repository :: "jsval \<Rightarrow> string js" where
  "npm_repository latestData = do {
     repository \<leftarrow> get_prop latestData ''repository'';
     url \<leftarrow> opt_chain repository ''url'';
     if truthy url
     then do {
       r \<leftarrow> call_replace url ''git+'' [];
       Some (''## Repository\<newline>'' @ r @ ''\<newline>\<newline>'')
     }
     else Some []
   }"

definition npm_keywords :: "engine \<Rightarrow> jsval \<Rightarrow> string js" where
  "npm_keywords eng latestData = do {
     keywords \<leftarrow> get_prop latestData ''keywords'';
     len \<leftarrow> opt_chain keywords ''length'';
     nonempty \<leftarrow> greater_zero eng len;
     if nonempty
     then do { k \<leftarrow> call_join keywords '', ''; Some (''## Keywords\<newline>'' @ k @ ''\<newline>\<newline>'') }
     else Some []
   }"

definition npm_documentation :: "jsval \<Rightarrow> string js" where
  "npm_documentation data = do {
     readme \<leftarrow> get_prop data ''readme'';
     if truthy readme
     then do { r \<leftarrow> to_string readme; Some (''## Documentation\<newline>\<newline>'' @ r @ ''\<newline>'') }
     else Some []
   }"

definition npm_docs :: "engine \<Rightarrow> jsval \<Rightarrow> jsval \<Rightarrow> string js" where
  "npm_docs eng data package_name = do {
     (latestVersion, latestData) \<leftarrow> npm_latest eng data;
     docs \<leftarrow> npm_title data latestVersion;
     description \<leftarrow> npm_description data;
     docs \<leftarrow> Some (docs @ description);
     installation \<leftarrow> npm_installation package_name;
     docs \<leftarrow> Some (docs @ installation);
     homepage \<leftarrow> npm_homepage latestData;
     docs \<leftarrow> Some (docs @ homepage);
     repository \<leftarrow> npm_repository latestData;
     docs \<leftarrow> Some (docs @ repository);
     keywords \<leftarrow> npm_keywords eng latestData;
     docs \<leftarrow> Some (docs @ keywords);
     documentation \<leftarrow> npm_documentation data;
     Some (docs @ documentation)
   }"

subsection \<open>The PyPI document (lines 140-169)\<close>

definition pypi_title :: "jsval \<Rightarrow> string js" where
  "pypi_title info = do {
     name \<leftarrow> get_prop info ''name'';
     version \<leftarrow> get_prop info ''version'';
     n \<leftarrow> to_string name;
     v \<leftarrow> to_string version;
     Some (''# '' @ n @ '' v'' @ v @ ''\<newline>\<newline>'')
   }"

definition pypi_summary :: "jsval \<Rightarrow> string js" where
  "pypi_summary info = do {
     summary \<leftarrow> get_prop info ''summary'';
     if truthy summary
     then do { s \<leftarrow> to_string summary; Some (s @ ''\<newline>\<newline>'') }
     else Some []
   }"

definition pypi_installation :: "jsval \<Rightarrow> string js" where
  "pypi_installation package_name = do {
     p \<leftarrow> to_string package_name;
     Some (''## Installation\<newline>\<newline>```bash\<newline>pip install '' @ p @ ''\<newline>```\<newline>\<newline>'')
   }"

definition pypi_homepage :: "jsval \<Rightarrow> string js" where
  "pypi_homepage info = do {
     home_page \<leftarrow> get_prop info ''home_page'';
     if truthy home_page
     then do { h \<leftarrow> to_string home_page; Some (''## Homepage\<newline>'' @ h @ ''\<newline>\<newline>'') }
     else Some []
   }"

text \<open>The \<^verbatim>\<open>for\<close> loop of lines 157-159, appending one line per entry.\<close>

fun links_loop :: "string \<Rightarrow> (string \<times> jsval) list \<Rightarrow> string js" where
  "links_loop docs [] = Some docs"
| "links_loop docs ((name, url) # entries) = do {
     u \<leftarrow> to_string url;
     links_loop (docs @ ''- '' @ name @ '': '' @ u @ ''\<newline>'') entries
   }"

definition pypi_project_links :: "jsval \<Rightarrow> string js" where
  "pypi_project_links info = do {
     project_urls \<leftarrow> get_prop info ''project_urls'';
     if truthy project_urls
     then do {
       entries \<leftarrow> Object_entries project_urls;
       links \<leftarrow> links_loop ''## Project Links\<newline>'' entries;
       Some (links @ ''\<newline>'')
     }
     else Some []
   }"

definition pypi_keywords :: "jsval \<Rightarrow> string js" where
  "pypi_keywords info = do {
     keywords \<leftarrow> get_prop info ''keywords'';
     if truthy keywords
     then do { k \<leftarrow> to_string keywords; Some (''## Keywords\<newline>'' @ k @ ''\<newline>\<newline>'') }
     else Some []
   }"

definition pypi_documentation :: "jsval \<Rightarrow> string js" where
  "pypi_documentation info = do {
     description \<leftarrow> get_prop info ''description'';
     if truthy description
     then do { d \<leftarrow> to_string description; Some (''## Documentation\<newline>\<newline>'' @ d @ ''\<newline>'') }
     else Some []
   }"

definition pypi_docs :: "jsval \<Rightarrow> jsval \<Rightarrow> string js" where
  "pypi_docs data package_name = do {
     info \<leftarrow> get_prop data ''info'';
     docs \<leftarrow> pypi_title info;
     summary \<leftarrow> pypi_summary info;
     docs \<leftarrow> Some (docs @ summary);
     installation \<leftarrow> pypi_installation package_name;
     docs \<leftarrow> Some (docs @ installation);
     homepage \<leftarrow> pypi_homepage info;
     docs \<leftarrow> Some (docs @ homepage);
     links \<leftarrow> pypi_project_links info;
     docs \<leftarrow> Some (docs @ links);
     keywords \<leftarrow> pypi_keywords info;
     docs \<leftarrow> Some (docs @ keywords);
     documentation \<leftarrow> pypi_documentation info;
     Some (docs @ documentation)
   }"

section \<open>The dispatcher\<close>

subsection \<open>The registries behind axios\<close>

text \<open>
  What the network answers to one HTTP request: no answer at all (DNS failure, refused
  connection, reset) with the message of the failure, or a final response with its
  status (200 or more), the URL that its \<^verbatim>\<open>Location\<close> header resolves to when it has
  one, and its parsed body.
\<close>

datatype upstream = NetworkError string | HttpResponse nat "string option" jsval

text \<open>
  The network is the answer to every URL, together with the number of redirects that the
  HTTP library below axios follows: the clients of lines 32-38 set a \<^verbatim>\<open>baseURL\<close> only,
  so the library's own limit applies.
\<close>

record network =
  web :: "string \<Rightarrow> upstream"
  maxRedirects :: nat

text \<open>
  How a call of \<^verbatim>\<open>client.get\<close> ends: the promise resolves with the response (of which
  the handlers read \<^verbatim>\<open>data\<close> only), it rejects with an \<^verbatim>\<open>AxiosError\<close> and its
  message, or it rejects with the \<^verbatim>\<open>TypeError\<close> of a URL that cannot be parsed, which
  is no \<^verbatim>\<open>AxiosError\<close>.
\<close>

datatype axios_result = AxiosError string | InvalidURL | Response jsval

text \<open>
  The default \<^verbatim>\<open>validateStatus\<close>: a final status from 200 to 299 resolves, any other
  rejects.
\<close>

definition settle :: "nat \<Rightarrow> jsval \<Rightarrow> axios_result" where
  "settle status data =
     (if 200 \<le> status \<and> status < 300 then Response data
      else AxiosError (''Request failed with status code '' @ show_nat status))"

text \<open>
  One request and the redirects after it. A response with a status from 300 to 399 and a
  \<^verbatim>\<open>Location\<close> header is not handed to axios: the request is sent again to the new
  URL, as long as the limit allows. Every other response is settled by its status.
\<close>

fun follow :: "(string \<Rightarrow> upstream) \<Rightarrow> nat \<Rightarrow> string \<Rightarrow> axios_result" where
  "follow answers 0 url =
     (case answers url of
        NetworkError message \<Rightarrow> AxiosError message
      | HttpResponse status location data \<Rightarrow>
          (case location of
             None \<Rightarrow> settle status data
           | Some target \<Rightarrow>
               if 300 \<le> status \<and> status < 400
               then AxiosError ''Maximum number of redirects exceeded''
               else settle status data))"
| "follow answers (Suc redirects) url =
     (case answers url of
        NetworkError message \<Rightarrow> AxiosError message
      | HttpResponse status location data \<Rightarrow>
          (case location of
             None \<Rightarrow> settle status data
           | Some target \<Rightarrow>
               if 300 \<le> status \<and> status < 400
               then follow answers redirects target
               else settle status data))"

text \<open>
  \<^verbatim>\<open>client.get(path)\<close> of an instance created with \<^verbatim>\<open>baseURL\<close>. A path that begins
  with two slashes counts as an absolute URL, is not joined to the base, and cannot be
  parsed: the call rejects with a \<^verbatim>\<open>TypeError\<close> before anything is sent. Any other
  path is joined to the base with one slash between them.
\<close>

definition axios_get :: "network \<Rightarrow> string \<Rightarrow> string \<Rightarrow> axios_result" where
  "axios_get net baseURL path =
     (if prefix ''//'' path then InvalidURL
      else follow (web net) (maxRedirects net)
             (baseURL @ ''/'' @ dropWhile (\<lambda>c. c = CHR ''/'') path))"

text \<open>The two clients of lines 32-38.\<close>

definition npmClient_get :: "network \<Rightarrow> string \<Rightarrow> axios_result" where
  "npmClient_get net path = axios_get net ''https://registry.npmjs.org'' path"

definition pypiClient_get :: "network \<Rightarrow> string \<Rightarrow> axios_result" where
  "pypiClient_get net path = axios_get net ''https://pypi.org/pypi'' path"

subsection \<open>Requests, results and the log of fetches\<close>

datatype ErrorCode = MethodNotFound | InternalError

text \<open>
  What a handler throws: an \<^verbatim>\<open>McpError\<close> with its code and the message given to its
  constructor, or the \<^verbatim>\<open>TypeError\<close> of a runtime fault, which the \<^verbatim>\<open>catch\<close>
  blocks throw again as it is.
\<close>

datatype thrown = McpError ErrorCode string | TypeError

record content =
  content_type :: string
  content_text :: string

record request =
  params_name :: string
  params_arguments :: jsval

datatype client = npmClient | pypiClient

text \<open>
  The state that the handler changes: the calls of \<^verbatim>\<open>get\<close> made so far, each with
  its client and its path, oldest first.
\<close>

type_synonym fetch_log = "(client \<times> string) list"

type_synonym tool_result = "thrown + content list"

subsection \<open>The \<^verbatim>\<open>CallToolRequestSchema\<close> handler (lines 81-194)\<close>

definition get_npm_docs :: "engine \<Rightarrow> network \<Rightarrow> jsval \<Rightarrow> fetch_log \<Rightarrow> tool_result \<times> fetch_log" where
  "get_npm_docs eng net arguments log =
     (case get_prop arguments ''package_name'' of
        None \<Rightarrow> (Inl TypeError, log)
      | Some package_name \<Rightarrow>
          (case to_string package_name of
             None \<Rightarrow> (Inl TypeError, log)
           | Some p \<Rightarrow>
               (case npmClient_get net (''/'' @ p) of
                  AxiosError message \<Rightarrow>
                    (Inl (McpError InternalError (''Failed to fetch npm package info: '' @ message)),
                     log @ [(npmClient, ''/'' @ p)])
                | InvalidURL \<Rightarrow> (Inl TypeError, log @ [(npmClient, ''/'' @ p)])
                | Response data \<Rightarrow>
                    (case npm_docs eng data package_name of
                       None \<Rightarrow> (Inl TypeError, log @ [(npmClient, ''/'' @ p)])
                     | Some docs \<Rightarrow>
                         (Inr [\<lparr>content_type = ''text'', content_text = docs\<rparr>],
                          log @ [(npmClient, ''/'' @ p)])))))"

definition get_pypi_docs :: "network \<Rightarrow> jsval \<Rightarrow> fetch_log \<Rightarrow> tool_result \<times> fetch_log" where
  "get_pypi_docs net arguments log =
     (case get_prop arguments ''package_name'' of
        None \<Rightarrow> (Inl TypeError, log)
      | Some package_name \<Rightarrow>
          (case to_string package_name of
             None \<Rightarrow> (Inl TypeError, log)
           | Some p \<Rightarrow>
               (case pypiClient_get net (''/'' @ p @ ''/json'') of
                  AxiosError message \<Rightarrow>
                    (Inl (McpError InternalError (''Failed to fetch PyPI package info: '' @ message)),
                     log @ [(pypiClient, ''/'' @ p @ ''/json'')])
                | InvalidURL \<Rightarrow> (Inl TypeError, log @ [(pypiClient, ''/'' @ p @ ''/json'')])
                | Response data \<Rightarrow>
                    (case pypi_docs data package_name of
                       None \<Rightarrow> (Inl TypeError, log @ [(pypiClient, ''/'' @ p @ ''/json'')])
                     | Some docs \<Rightarrow>
                         (Inr [\<lparr>content_type = ''text'', content_text = docs\<rparr>],
                          log @ [(pypiClient, ''/'' @ p @ ''/json'')])))))"

definition CallTool :: "engine \<Rightarrow> network \<Rightarrow> request \<Rightarrow> fetch_log \<Rightarrow> tool_result \<times> fetch_log" where
  "CallTool eng net req log =
     (if params_name req = ''get_npm_docs'' then get_npm_docs eng net (params_arguments req) log
      else if params_name req = ''get_pypi_docs'' then get_pypi_docs net (params_arguments req) log
      else (Inl (McpError MethodNotFound (''Unknown tool: '' @ params_name req)), log))"

section \<open>The sections of a document\<close>

text \<open>
  A document is the concatenation of the texts its blocks append. A section is present
  when its block appended a text that is not empty; the sections of a document are the
  present ones, each with its text, in the order of the blocks in the source.
\<close>

datatype doc_section =
  Title | Description | Summary | Installation | Homepage | Repository | ProjectLinks
  | Keywords | Documentation

definition present :: "(doc_section \<times> string) list \<Rightarrow> (doc_section \<times> string) list" where
  "present blocks = filter (\<lambda>block. snd block \<noteq> []) blocks"

definition npm_sections :: "engine \<Rightarrow> jsval \<Rightarrow> jsval \<Rightarrow> (doc_section \<times> string) list js" where
  "npm_sections eng data package_name = do {
     (latestVersion, latestData) \<leftarrow> npm_latest eng data;
     title \<leftarrow> npm_title data latestVersion;
     description \<leftarrow> npm_description data;
     installation \<leftarrow> npm_installation package_name;
     homepage \<leftarrow> npm_homepage latestData;
     repository \<leftarrow> npm_repository latestData;
     keywords \<leftarrow> npm_keywords eng latestData;
     documentation \<leftarrow> npm_documentation data;
     Some (present [(Title, title), (Description, description), (Installation, installation),
       (Homepage, homepage), (Repository, repository), (Keywords, keywords),
       (Documentation, documentation)])
   }"

definition pypi_sections :: "jsval \<Rightarrow> jsval \<Rightarrow> (doc_section \<times> string) list js" where
  "pypi_sections data package_name = do {
     info \<leftarrow> get_prop data ''info'';
     title \<leftarrow> pypi_title info;
     summary \<leftarrow> pypi_summary info;
     installation \<leftarrow> pypi_installation package_name;
     homepage \<leftarrow> pypi_homepage info;
     links \<leftarrow> pypi_project_links info;
     keywords \<leftarrow> pypi_keywords info;
     documentation \<leftarrow> pypi_documentation info;
     Some (present [(Title, title), (Summary, summary), (Installation, installation),
       (Homepage, homepage), (ProjectLinks, links), (Keywords, keywords),
       (Documentation, documentation)])
   }"

text \<open>The order of the sections that the specification fixes for each registry.\<close>

definition npm_order :: "doc_section list" where
  "npm_order = [Title, Description, Installation, Homepage, Repository, Keywords, Documentation]"

definition pypi_order :: "doc_section list" where
  "pypi_order = [Title, Summary, Installation, Homepage, ProjectLinks, Keywords, Documentation]"

text \<open>
  How the text of a present section begins: the title with its mark, a section with its
  heading line; the description and summary paragraphs have no heading.
\<close>

fun heading :: "doc_section \<Rightarrow> string" where
  "heading Title = ''# ''"
| "heading Description = []"
| "heading Summary = []"
| "heading Installation = ''## Installation\<newline>''"
| "heading Homepage = ''## Homepage\<newline>''"
| "heading Repository = ''## Repository\<newline>''"
| "heading ProjectLinks = ''## Project Links\<newline>''"
| "heading Keywords = ''## Keywords\<newline>''"
| "heading Documentation = ''## Documentation\<newline>''"

text \<open>The two registries, to state a property of both documents at once.\<close>

datatype registry = Npm | PyPI

fun docs_of :: "engine \<Rightarrow> registry \<Rightarrow> jsval \<Rightarrow> jsval \<Rightarrow> string js" where
  "docs_of eng Npm data package_name = npm_docs eng data package_name"
| "docs_of eng PyPI data package_name = pypi_docs data package_name"

fun sections_of :: "engine \<Rightarrow> registry \<Rightarrow> jsval \<Rightarrow> jsval \<Rightarrow> (doc_section \<times> string) list js" where
  "sections_of eng Npm data package_name = npm_sections eng data package_name"
| "sections_of eng PyPI data package_name = pypi_sections data package_name"

fun order_of :: "registry \<Rightarrow> doc_section list" where
  "order_of Npm = npm_order"
| "order_of PyPI = pypi_order"

section \<open>Example inputs\<close>

text \<open>
  An engine whose objects inherit the properties of \<^verbatim>\<open>Object.prototype\<close> and whose
  \<open>StringToNumber\<close> reads the canonical decimal numerals.
\<close>

definition example_engine :: engine where
  "example_engine =
     \<lparr>inherited = (\<lambda>v k. k \<in> set [''constructor'', ''hasOwnProperty'', ''isPrototypeOf'',
        ''propertyIsEnumerable'', ''toLocaleString'', ''toString'', ''valueOf'', ''__proto__'']),
      StringToNumber = (\<lambda>s. if is_canonical_numeral s then s else ''NaN'')\<rparr>"

text \<open>A network that gives the same answer to every request.\<close>

definition answering :: "upstream \<Rightarrow> network" where
  "answering r = \<lparr>web = (\<lambda>url. r), maxRedirects = 21\<rparr>"

text \<open>An npm record with every optional field, and one with none.\<close>

definition left_pad_record :: jsval where
  "left_pad_record = JObj
     [(''name'', JStr ''left-pad''),
      (''description'', JStr ''String left pad''),
      (''dist-tags'', JObj [(''latest'', JStr ''1.3.0'')]),
      (''versions'', JObj
         [(''1.2.0'', JObj [(''homepage'', JStr ''https://old.example'')]),
          (''1.3.0'', JObj
             [(''homepage'', JStr ''https://github.com/stevemao/left-pad#readme''),
              (''repository'', JObj
                 [(''type'', JStr ''git''),
                  (''url'', JStr ''git+https://github.com/stevemao/left-pad.git'')]),
              (''keywords'', JArr [JStr ''leftpad'', JStr ''left'', JStr ''pad''])])]),
      (''readme'', JStr ''## left-pad'')]"

definition bare_npm_record :: jsval where
  "bare_npm_record = JObj
     [(''name'', JStr ''bare''),
      (''dist-tags'', JObj [(''latest'', JStr ''0.0.1'')]),
      (''versions'', JObj [(''0.0.1'', JObj [(''homepage'', JStr ''https://x'')])])]"

text \<open>A PyPI record whose registered name differs from the name it was asked by.\<close>

definition flask_login_record :: jsval where
  "flask_login_record = JObj
     [(''info'', JObj
         [(''name'', JStr ''Flask-Login''),
          (''version'', JStr ''0.6.3''),
          (''summary'', JStr ''User authentication and session management for Flask.''),
          (''home_page'', JStr ''https://github.com/maxcountryman/flask-login''),
          (''project_urls'', JObj
             [(''Docs'', JStr ''https://d''), (''Source'', JStr ''https://s'')]),
          (''keywords'', JStr ''flask, login''),
          (''description'', JStr ''Flask-Login provides user session management.'')])]"

definition call :: "string \<Rightarrow> string \<Rightarrow> request" where
  "call operation package = \<lparr>params_name = operation,
     params_arguments = JObj [(''package_name'', JStr package)]\<rparr>"

text \<open>
  A network on which the npm registry has moved the record of one package: the request
  for it is answered with a redirect, every other request with the record.
\<close>

definition moved_network :: network where
  "moved_network =
     \<lparr>web = (\<lambda>url. if url = ''https://registry.npmjs.org/bare''
                   then HttpResponse 301 (Some ''https://registry.npmjs.org/bare/'') JNull
                   else HttpResponse 200 None bare_npm_record),
      maxRedirects = 21\<rparr>"





definition pypi_record_with :: "jsval \<Rightarrow> jsval" where
  "pypi_record_with urls = JObj
     [(''info'', JObj [(''name'', JStr ''pkg''), (''version'', JStr ''1.0''), (''project_urls'', urls)])]"

section \<open>Lemmas on documents and their sections\<close>

lemma concat_present: "concat (map snd (present blocks)) = concat (map snd blocks)"
  by (induction blocks) (auto simp: present_def)

lemma subseq_present: "subseq (map fst (present blocks)) (map fst blocks)"
  unfolding present_def by (simp add: subseq_map)

lemma npm_docs_sections:
  "npm_docs eng data p = map_option (\<lambda>secs. concat (map snd secs)) (npm_sections eng data p)"
  by (simp add: npm_docs_def npm_sections_def concat_present split: Option.bind_splits prod.splits)

lemma pypi_docs_sections:
  "pypi_docs data p = map_option (\<lambda>secs. concat (map snd secs)) (pypi_sections data p)"
  by (simp add: pypi_docs_def pypi_sections_def concat_present split: Option.bind_splits prod.splits)

lemma docs_of_sections:
  "docs_of eng reg data p = map_option (\<lambda>secs. concat (map snd secs)) (sections_of eng reg data p)"
  by (cases reg) (simp_all add: npm_docs_sections pypi_docs_sections)

lemma subseq_set_subset: "subseq xs ys \<Longrightarrow> set xs \<subseteq> set ys"
  by (induction rule: list_emb.induct) auto

lemma subseq_distinct_filter:
  "subseq xs zs \<Longrightarrow> distinct zs \<Longrightarrow> xs = filter (\<lambda>z. z \<in> set xs) zs"
proof (induction rule: list_emb.induct)
  case (list_emb_Nil ys)
  then show ?case by simp
next
  case (list_emb_Cons xs ys y)
  have "set xs \<subseteq> set ys"
    using list_emb_Cons.hyps by (rule subseq_set_subset)
  then have "y \<notin> set xs"
    using list_emb_Cons.prems by auto
  with list_emb_Cons show ?case by simp
next
  case (list_emb_Cons2 x y xs ys)
  have "set xs \<subseteq> set ys"
    using list_emb_Cons2.hyps(2) by (rule subseq_set_subset)
  then have notin: "x \<notin> set xs"
    using list_emb_Cons2.prems list_emb_Cons2.hyps(1) by auto
  have "filter (\<lambda>z. z = x \<or> z \<in> set xs) ys = filter (\<lambda>z. z \<in> set xs) ys"
    using list_emb_Cons2.prems list_emb_Cons2.hyps(1) by (intro filter_cong) auto
  with list_emb_Cons2 show ?case by simp
qed

lemma same_relative_order:
  assumes "subseq xs zs" and "subseq ys zs" and "distinct zs"
  shows "filter (\<lambda>s. s \<in> set ys) xs = filter (\<lambda>s. s \<in> set xs) ys"
proof -
  have "filter (\<lambda>s. s \<in> set ys) xs = filter (\<lambda>s. s \<in> set ys) (filter (\<lambda>z. z \<in> set xs) zs)"
    using subseq_distinct_filter [OF assms(1,3)] by simp
  also have "\<dots> = filter (\<lambda>s. s \<in> set xs) (filter (\<lambda>z. z \<in> set ys) zs)"
    by (simp add: conj_commute)
  also have "\<dots> = filter (\<lambda>s. s \<in> set xs) ys"
    using subseq_distinct_filter [OF assms(2,3)] by simp
  finally show ?thesis .
qed

lemma npm_title_heading: "npm_title data v = Some t \<Longrightarrow> prefix ''# '' t"
  by (auto simp: npm_title_def split: Option.bind_splits)

lemma npm_installation_heading:
  "npm_installation p = Some t \<Longrightarrow> prefix ''## Installation\<newline>'' t"
  by (auto simp: npm_installation_def split: Option.bind_splits)

lemma npm_homepage_heading:
  "npm_homepage ld = Some t \<Longrightarrow> t \<noteq> [] \<Longrightarrow> prefix ''## Homepage\<newline>'' t"
  by (auto simp: npm_homepage_def split: Option.bind_splits if_splits)

lemma npm_repository_heading:
  "npm_repository ld = Some t \<Longrightarrow> t \<noteq> [] \<Longrightarrow> prefix ''## Repository\<newline>'' t"
  by (auto simp: npm_repository_def split: Option.bind_splits if_splits)

lemma npm_keywords_heading:
  "npm_keywords eng ld = Some t \<Longrightarrow> t \<noteq> [] \<Longrightarrow> prefix ''## Keywords\<newline>'' t"
  by (auto simp: npm_keywords_def split: Option.bind_splits if_splits)

lemma npm_documentation_heading:
  "npm_documentation data = Some t \<Longrightarrow> t \<noteq> [] \<Longrightarrow> prefix ''## Documentation\<newline>'' t"
  by (auto simp: npm_documentation_def split: Option.bind_splits if_splits)

lemma pypi_title_heading: "pypi_title info = Some t \<Longrightarrow> prefix ''# '' t"
  by (auto simp: pypi_title_def split: Option.bind_splits)

lemma pypi_installation_heading:
  "pypi_installation p = Some t \<Longrightarrow> prefix ''## Installation\<newline>'' t"
  by (auto simp: pypi_installation_def split: Option.bind_splits)

lemma pypi_homepage_heading:
  "pypi_homepage info = Some t \<Longrightarrow> t \<noteq> [] \<Longrightarrow> prefix ''## Homepage\<newline>'' t"
  by (auto simp: pypi_homepage_def split: Option.bind_splits if_splits)

lemma links_loop_prefix: "links_loop docs entries = Some t \<Longrightarrow> prefix docs t"
proof (induction docs entries rule: links_loop.induct)
  case (1 docs)
  then show ?case by simp
next
  case (2 docs name url entries)
  then show ?case
    by (auto split: Option.bind_splits dest: append_prefixD)
qed

lemma pypi_project_links_heading:
  "pypi_project_links info = Some t \<Longrightarrow> t \<noteq> [] \<Longrightarrow> prefix ''## Project Links\<newline>'' t"
  by (auto simp: pypi_project_links_def split: Option.bind_splits if_splits
      dest!: links_loop_prefix intro: prefix_order.trans)

lemma pypi_keywords_heading:
  "pypi_keywords info = Some t \<Longrightarrow> t \<noteq> [] \<Longrightarrow> prefix ''## Keywords\<newline>'' t"
  by (auto simp: pypi_keywords_def split: Option.bind_splits if_splits)

lemma pypi_documentation_heading:
  "pypi_documentation info = Some t \<Longrightarrow> t \<noteq> [] \<Longrightarrow> prefix ''## Documentation\<newline>'' t"
  by (auto simp: pypi_documentation_def split: Option.bind_splits if_splits)

lemma npm_sections_blocks:
  assumes "npm_sections eng data p = Some secs"
  obtains lv ld t d i h r k m where
    "npm_latest eng data = Some (lv, ld)" and "npm_title data lv = Some t"
    and "npm_description data = Some d" and "npm_installation p = Some i"
    and "npm_homepage ld = Some h" and "npm_repository ld = Some r"
    and "npm_keywords eng ld = Some k" and "npm_documentation data = Some m"
    and "secs = present [(Title, t), (Description, d), (Installation, i),
      (Homepage, h), (Repository, r), (Keywords, k), (Documentation, m)]"
  using assms by (clarsimp simp: npm_sections_def bind_eq_Some_conv)

lemma pypi_sections_blocks:
  assumes "pypi_sections data p = Some secs"
  obtains info t d i h r k m where
    "get_prop data ''info'' = Some info" and "pypi_title info = Some t"
    and "pypi_summary info = Some d" and "pypi_installation p = Some i"
    and "pypi_homepage info = Some h" and "pypi_project_links info = Some r"
    and "pypi_keywords info = Some k" and "pypi_documentation info = Some m"
    and "secs = present [(Title, t), (Summary, d), (Installation, i),
      (Homepage, h), (ProjectLinks, r), (Keywords, k), (Documentation, m)]"
  using assms by (clarsimp simp: pypi_sections_def bind_eq_Some_conv)

lemma npm_sections_ordered:
  assumes "npm_sections eng data p = Some secs"
  shows "subseq (map fst secs) npm_order"
proof -
  from assms obtain t d i h r k m where
    "secs = present [(Title, t), (Description, d), (Installation, i),
       (Homepage, h), (Repository, r), (Keywords, k), (Documentation, m)]"
    by (rule npm_sections_blocks)
  then show ?thesis
    using subseq_present [of "[(Title, t), (Description, d), (Installation, i),
       (Homepage, h), (Repository, r), (Keywords, k), (Documentation, m)]"]
    by (simp add: npm_order_def)
qed

lemma pypi_sections_ordered:
  assumes "pypi_sections data p = Some secs"
  shows "subseq (map fst secs) pypi_order"
proof -
  from assms obtain t d i h r k m where
    "secs = present [(Title, t), (Summary, d), (Installation, i),
       (Homepage, h), (ProjectLinks, r), (Keywords, k), (Documentation, m)]"
    by (rule pypi_sections_blocks)
  then show ?thesis
    using subseq_present [of "[(Title, t), (Summary, d), (Installation, i),
       (Homepage, h), (ProjectLinks, r), (Keywords, k), (Documentation, m)]"]
    by (simp add: pypi_order_def)
qed

lemma npm_sections_headings:
  assumes "npm_sections eng data p = Some secs"
  shows "list_all (\<lambda>(s, t). prefix (heading s) t) secs"
proof -
  from assms obtain lv ld t d i h r k m where
    b: "npm_title data lv = Some t" "npm_installation p = Some i"
      "npm_homepage ld = Some h" "npm_repository ld = Some r"
      "npm_keywords eng ld = Some k" "npm_documentation data = Some m"
    and secs: "secs = present [(Title, t), (Description, d), (Installation, i),
      (Homepage, h), (Repository, r), (Keywords, k), (Documentation, m)]"
    by (rule npm_sections_blocks)
  have "prefix ''# '' t" "prefix ''## Installation\<newline>'' i"
    using b by (simp_all add: npm_title_heading npm_installation_heading)
  moreover have "h \<noteq> [] \<Longrightarrow> prefix ''## Homepage\<newline>'' h"
    using b by (simp add: npm_homepage_heading)
  moreover have "r \<noteq> [] \<Longrightarrow> prefix ''## Repository\<newline>'' r"
    using b by (simp add: npm_repository_heading)
  moreover have "k \<noteq> [] \<Longrightarrow> prefix ''## Keywords\<newline>'' k"
    using b by (simp add: npm_keywords_heading)
  moreover have "m \<noteq> [] \<Longrightarrow> prefix ''## Documentation\<newline>'' m"
    using b by (simp add: npm_documentation_heading)
  ultimately show ?thesis
    unfolding secs present_def by simp
qed

lemma pypi_sections_headings:
  assumes "pypi_sections data p = Some secs"
  shows "list_all (\<lambda>(s, t). prefix (heading s) t) secs"
proof -
  from assms obtain info t d i h r k m where
    b: "pypi_title info = Some t" "pypi_installation p = Some i"
      "pypi_homepage info = Some h" "pypi_project_links info = Some r"
      "pypi_keywords info = Some k" "pypi_documentation info = Some m"
    and secs: "secs = present [(Title, t), (Summary, d), (Installation, i),
      (Homepage, h), (ProjectLinks, r), (Keywords, k), (Documentation, m)]"
    by (rule pypi_sections_blocks)
  have "prefix ''# '' t" "prefix ''## Installation\<newline>'' i"
    using b by (simp_all add: pypi_title_heading pypi_installation_heading)
  moreover have "h \<noteq> [] \<Longrightarrow> prefix ''## Homepage\<newline>'' h"
    using b by (simp add: pypi_homepage_heading)
  moreover have "r \<noteq> [] \<Longrightarrow> prefix ''## Project Links\<newline>'' r"
    using b by (simp add: pypi_project_links_heading)
  moreover have "k \<noteq> [] \<Longrightarrow> prefix ''## Keywords\<newline>'' k"
    using b by (simp add: pypi_keywords_heading)
  moreover have "m \<noteq> [] \<Longrightarrow> prefix ''## Documentation\<newline>'' m"
    using b by (simp add: pypi_documentation_heading)
  ultimately show ?thesis
    unfolding secs present_def by simp
qed

lemma sections_of_ordered:
  "sections_of eng reg data p = Some secs \<Longrightarrow> subseq (map fst secs) (order_of reg)"
  by (cases reg) (simp_all add: npm_sections_ordered pypi_sections_ordered)

lemma sections_of_headings:
  "sections_of eng reg data p = Some secs \<Longrightarrow> list_all (\<lambda>(s, t). prefix (heading s) t) secs"
  by (cases reg) (simp_all add: npm_sections_headings pypi_sections_headings)

lemma distinct_order_of: "distinct (order_of reg)"
  by (cases reg) (simp_all add: npm_order_def pypi_order_def)

subsection \<open>The clients\<close>

lemma follow_network_error:
  "answers url = NetworkError message \<Longrightarrow> follow answers redirects url = AxiosError message"
  by (cases redirects) simp_all

lemma follow_final:
  "answers url = HttpResponse status location data \<Longrightarrow>
   status < 300 \<or> 400 \<le> status \<or> location = None \<Longrightarrow>
   follow answers redirects url = settle status data"
  by (cases redirects; cases location) auto

lemma follow_redirect:
  "answers url = HttpResponse status (Some target) data \<Longrightarrow> 300 \<le> status \<Longrightarrow> status < 400 \<Longrightarrow>
   follow answers (Suc redirects) url = follow answers redirects target"
  by simp

lemma settle_failure:
  "status < 200 \<or> 300 \<le> status \<Longrightarrow>
   settle status data = AxiosError (''Request failed with status code '' @ show_nat status)"
  by (auto simp: settle_def)

lemma axios_get_valid:
  assumes "\<not> prefix ''/'' q"
  shows "axios_get net baseURL (''/'' @ q) = follow (web net) (maxRedirects net) (baseURL @ ''/'' @ q)"
proof -
  have "dropWhile (\<lambda>c. c = CHR ''/'') q = q"
    using assms by (cases q) auto
  then show ?thesis
    using assms by (simp add: axios_get_def)
qed

lemma axios_get_invalid: "prefix ''/'' q \<Longrightarrow> axios_get net baseURL (''/'' @ q) = InvalidURL"
  by (simp add: axios_get_def)

lemma npmClient_get_valid:
  "\<not> prefix ''/'' p \<Longrightarrow>
   npmClient_get net (''/'' @ p) = follow (web net) (maxRedirects net) (''https://registry.npmjs.org/'' @ p)"
  using axios_get_valid [of p net "''https://registry.npmjs.org''"] by (simp add: npmClient_get_def)

lemma pypiClient_get_valid:
  assumes "\<not> prefix ''/'' (p @ ''/json'')"
  shows "pypiClient_get net (''/'' @ p @ ''/json'')
         = follow (web net) (maxRedirects net) (''https://pypi.org/pypi/'' @ p @ ''/json'')"
  using axios_get_valid [OF assms, of net "''https://pypi.org/pypi''"] by (simp add: pypiClient_get_def)

subsection \<open>The handler, case by case\<close>

lemma CallTool_npm_failure:
  assumes "params_name req = ''get_npm_docs''"
    and "get_prop (params_arguments req) ''package_name'' = Some package_name"
    and "to_string package_name = Some p"
    and "npmClient_get net (''/'' @ p) = AxiosError message"
  shows "CallTool eng net req log
    = (Inl (McpError InternalError (''Failed to fetch npm package info: '' @ message)),
       log @ [(npmClient, ''/'' @ p)])"
  using assms by (simp add: CallTool_def get_npm_docs_def)

lemma CallTool_pypi_failure:
  assumes "params_name req = ''get_pypi_docs''"
    and "get_prop (params_arguments req) ''package_name'' = Some package_name"
    and "to_string package_name = Some p"
    and "pypiClient_get net (''/'' @ p @ ''/json'') = AxiosError message"
  shows "CallTool eng net req log
    = (Inl (McpError InternalError (''Failed to fetch PyPI package info: '' @ message)),
       log @ [(pypiClient, ''/'' @ p @ ''/json'')])"
  using assms by (simp add: CallTool_def get_pypi_docs_def)

lemma CallTool_npm_invalid:
  assumes "params_name req = ''get_npm_docs''"
    and "get_prop (params_arguments req) ''package_name'' = Some package_name"
    and "to_string package_name = Some p"
    and "npmClient_get net (''/'' @ p) = InvalidURL"
  shows "CallTool eng net req log = (Inl TypeError, log @ [(npmClient, ''/'' @ p)])"
  using assms by (simp add: CallTool_def get_npm_docs_def)

lemma CallTool_pypi_invalid:
  assumes "params_name req = ''get_pypi_docs''"
    and "get_prop (params_arguments req) ''package_name'' = Some package_name"
    and "to_string package_name = Some p"
    and "pypiClient_get net (''/'' @ p @ ''/json'') = InvalidURL"
  shows "CallTool eng net req log = (Inl TypeError, log @ [(pypiClient, ''/'' @ p @ ''/json'')])"
  using assms by (simp add: CallTool_def get_pypi_docs_def)

lemma CallTool_npm_response:
  assumes "params_name req = ''get_npm_docs''"
    and "get_prop (params_arguments req) ''package_name'' = Some package_name"
    and "to_string package_name = Some p"
    and "npmClient_get net (''/'' @ p) = Response data"
  shows "CallTool eng net req log
    = (case npm_docs eng data package_name of
         None \<Rightarrow> Inl TypeError
       | Some docs \<Rightarrow> Inr [\<lparr>content_type = ''text'', content_text = docs\<rparr>],
       log @ [(npmClient, ''/'' @ p)])"
  using assms by (simp add: CallTool_def get_npm_docs_def split: option.splits)

lemma CallTool_pypi_response:
  assumes "params_name req = ''get_pypi_docs''"
    and "get_prop (params_arguments req) ''package_name'' = Some package_name"
    and "to_string package_name = Some p"
    and "pypiClient_get net (''/'' @ p @ ''/json'') = Response data"
  shows "CallTool eng net req log
    = (case pypi_docs data package_name of
         None \<Rightarrow> Inl TypeError
       | Some docs \<Rightarrow> Inr [\<lparr>content_type = ''text'', content_text = docs\<rparr>],
       log @ [(pypiClient, ''/'' @ p @ ''/json'')])"
  using assms by (simp add: CallTool_def get_pypi_docs_def split: option.splits)

lemma get_npm_docs_success:
  assumes "get_npm_docs eng net arguments log = (Inr blocks, log')"
  obtains package_name p data docs where
    "get_prop arguments ''package_name'' = Some package_name"
    and "to_string package_name = Some p"
    and "npmClient_get net (''/'' @ p) = Response data"
    and "npm_docs eng data package_name = Some docs"
    and "blocks = [\<lparr>content_type = ''text'', content_text = docs\<rparr>]"
    and "log' = log @ [(npmClient, ''/'' @ p)]"
  using assms
  by (auto simp: get_npm_docs_def split: option.splits axios_result.splits)

lemma get_pypi_docs_success:
  assumes "get_pypi_docs net arguments log = (Inr blocks, log')"
  obtains package_name p data docs where
    "get_prop arguments ''package_name'' = Some package_name"
    and "to_string package_name = Some p"
    and "pypiClient_get net (''/'' @ p @ ''/json'') = Response data"
    and "pypi_docs data package_name = Some docs"
    and "blocks = [\<lparr>content_type = ''text'', content_text = docs\<rparr>]"
    and "log' = log @ [(pypiClient, ''/'' @ p @ ''/json'')]"
  using assms
  by (auto simp: get_pypi_docs_def split: option.splits axios_result.splits)

lemma CallTool_success:
  assumes "CallTool eng net req log = (Inr blocks, log')"
  obtains (npm) "params_name req = ''get_npm_docs''"
      "get_npm_docs eng net (params_arguments req) log = (Inr blocks, log')"
    | (pypi) "params_name req = ''get_pypi_docs''"
      "get_pypi_docs net (params_arguments req) log = (Inr blocks, log')"
  using assms by (auto simp: CallTool_def split: if_splits)

subsection \<open>The blocks of a document\<close>

lemma npm_docs_blocks:
  assumes "npm_docs eng data p = Some docs"
  obtains lv ld t d i h r k m where
    "npm_latest eng data = Some (lv, ld)" and "npm_title data lv = Some t"
    and "npm_description data = Some d" and "npm_installation p = Some i"
    and "npm_homepage ld = Some h" and "npm_repository ld = Some r"
    and "npm_keywords eng ld = Some k" and "npm_documentation data = Some m"
    and "docs = t @ d @ i @ h @ r @ k @ m"
  using assms by (clarsimp simp: npm_docs_def bind_eq_Some_conv)

lemma pypi_docs_blocks:
  assumes "pypi_docs data p = Some docs"
  obtains info t d i h r k m where
    "get_prop data ''info'' = Some info" and "pypi_title info = Some t"
    and "pypi_summary info = Some d" and "pypi_installation p = Some i"
    and "pypi_homepage info = Some h" and "pypi_project_links info = Some r"
    and "pypi_keywords info = Some k" and "pypi_documentation info = Some m"
    and "docs = t @ d @ i @ h @ r @ k @ m"
  using assms by (clarsimp simp: pypi_docs_def bind_eq_Some_conv)

lemma sublist_third: "sublist i (t @ d @ i @ rest)"
  by (metis append.assoc sublist_appendI)

lemma npm_docs_installation:
  assumes "npm_docs eng data package_name = Some docs" and "to_string package_name = Some p"
  shows "sublist (''## Installation\<newline>\<newline>```bash\<newline>npm install '' @ p @ ''\<newline>```\<newline>\<newline>'') docs"
proof -
  from assms(1) obtain t d i rest where "npm_installation package_name = Some i"
    and "docs = t @ d @ i @ rest"
    by (rule npm_docs_blocks)
  then show ?thesis
    using assms(2) sublist_third [of i t d rest] by (simp add: npm_installation_def)
qed

lemma pypi_docs_installation:
  assumes "pypi_docs data package_name = Some docs" and "to_string package_name = Some p"
  shows "sublist (''## Installation\<newline>\<newline>```bash\<newline>pip install '' @ p @ ''\<newline>```\<newline>\<newline>'') docs"
proof -
  from assms(1) obtain t d i rest where "pypi_installation package_name = Some i"
    and "docs = t @ d @ i @ rest"
    by (rule pypi_docs_blocks)
  then show ?thesis
    using assms(2) sublist_third [of i t d rest] by (simp add: pypi_installation_def)
qed

subsection \<open>The example inputs, evaluated\<close>

lemmas npm_blocks_defs = npm_latest_def npm_title_def npm_description_def npm_installation_def
  npm_homepage_def npm_repository_def npm_keywords_def npm_documentation_def opt_chain_def
  get_elem_def num_positive_def

lemmas pypi_blocks_defs = pypi_title_def pypi_summary_def pypi_installation_def
  pypi_homepage_def pypi_project_links_def pypi_keywords_def pypi_documentation_def
  is_array_index_def is_canonical_numeral_def is_digit_def

lemma left_pad_sections:
  "npm_sections example_engine left_pad_record (JStr ''left-pad'') = Some
     [(Title, ''# left-pad v1.3.0\<newline>\<newline>''),
      (Description, ''String left pad\<newline>\<newline>''),
      (Installation, ''## Installation\<newline>\<newline>```bash\<newline>npm install left-pad\<newline>```\<newline>\<newline>''),
      (Homepage, ''## Homepage\<newline>https://github.com/stevemao/left-pad#readme\<newline>\<newline>''),
      (Repository, ''## Repository\<newline>https://github.com/stevemao/left-pad.git\<newline>\<newline>''),
      (Keywords, ''## Keywords\<newline>leftpad, left, pad\<newline>\<newline>''),
      (Documentation, ''## Documentation\<newline>\<newline>## left-pad\<newline>'')]"
  by (simp add: npm_sections_def npm_blocks_defs left_pad_record_def present_def
      show_nat.simps digit_char_def)

lemma bare_sections:
  "npm_sections example_engine bare_npm_record (JStr ''bare'') = Some
     [(Title, ''# bare v0.0.1\<newline>\<newline>''),
      (Installation, ''## Installation\<newline>\<newline>```bash\<newline>npm install bare\<newline>```\<newline>\<newline>''),
      (Homepage, ''## Homepage\<newline>https://x\<newline>\<newline>'')]"
  by (simp add: npm_sections_def npm_blocks_defs bare_npm_record_def present_def)

lemma flask_login_sections:
  "pypi_sections flask_login_record (JStr ''flask_login'') = Some
     [(Title, ''# Flask-Login v0.6.3\<newline>\<newline>''),
      (Summary, ''User authentication and session management for Flask.\<newline>\<newline>''),
      (Installation, ''## Installation\<newline>\<newline>```bash\<newline>pip install flask_login\<newline>```\<newline>\<newline>''),
      (Homepage, ''## Homepage\<newline>https://github.com/maxcountryman/flask-login\<newline>\<newline>''),
      (ProjectLinks, ''## Project Links\<newline>- Docs: https://d\<newline>- Source: https://s\<newline>\<newline>''),
      (Keywords, ''## Keywords\<newline>flask, login\<newline>\<newline>''),
      (Documentation, ''## Documentation\<newline>\<newline>Flask-Login provides user session management.\<newline>'')]"
  by (simp add: pypi_sections_def pypi_blocks_defs flask_login_record_def present_def)

lemma left_pad_docs:
  "npm_docs example_engine left_pad_record (JStr ''left-pad'') = Some
     ''# left-pad v1.3.0\<newline>\<newline>String left pad\<newline>\<newline>## Installation\<newline>\<newline>```bash\<newline>npm install left-pad\<newline>```\<newline>\<newline>## Homepage\<newline>https://github.com/stevemao/left-pad#readme\<newline>\<newline>## Repository\<newline>https://github.com/stevemao/left-pad.git\<newline>\<newline>## Keywords\<newline>leftpad, left, pad\<newline>\<newline>## Documentation\<newline>\<newline>## left-pad\<newline>''"
  by (simp add: npm_docs_sections left_pad_sections)

lemma bare_docs:
  "npm_docs example_engine bare_npm_record (JStr ''bare'') = Some
     ''# bare v0.0.1\<newline>\<newline>## Installation\<newline>\<newline>```bash\<newline>npm install bare\<newline>```\<newline>\<newline>## Homepage\<newline>https://x\<newline>\<newline>''"
  by (simp add: npm_docs_sections bare_sections)

lemma flask_login_docs:
  "pypi_docs flask_login_record (JStr ''flask_login'') = Some
     ''# Flask-Login v0.6.3\<newline>\<newline>User authentication and session management for Flask.\<newline>\<newline>## Installation\<newline>\<newline>```bash\<newline>pip install flask_login\<newline>```\<newline>\<newline>## Homepage\<newline>https://github.com/maxcountryman/flask-login\<newline>\<newline>## Project Links\<newline>- Docs: https://d\<newline>- Source: https://s\<newline>\<newline>## Keywords\<newline>flask, login\<newline>\<newline>## Documentation\<newline>\<newline>Flask-Login provides user session management.\<newline>''"
  by (simp add: pypi_docs_sections flask_login_sections)

lemma call_package_name [simp]:
  "params_name (call operation package) = operation"
  "get_prop (params_arguments (call operation package)) ''package_name'' = Some (JStr package)"
  by (simp_all add: call_def)

lemma answering_ok:
  assumes "\<not> prefix ''/'' q"
  shows "axios_get (answering (HttpResponse 200 None data)) baseURL (''/'' @ q) = Response data"
proof -
  have "follow (\<lambda>url. HttpResponse 200 None data) 21 (baseURL @ ''/'' @ q) = settle 200 data"
    by (rule follow_final [where location = None]) simp_all
  then show ?thesis
    using axios_get_valid [OF assms, of "answering (HttpResponse 200 None data)" baseURL]
    by (simp add: answering_def settle_def)
qed

lemma CallTool_left_pad:
  "CallTool example_engine (answering (HttpResponse 200 None left_pad_record)) (call ''get_npm_docs'' ''left-pad'') log
   = (Inr [\<lparr>content_type = ''text'', content_text = the (npm_docs example_engine left_pad_record (JStr ''left-pad''))\<rparr>],
      log @ [(npmClient, ''/left-pad'')])"
proof -
  have "npmClient_get (answering (HttpResponse 200 None left_pad_record)) (''/'' @ ''left-pad'')
        = Response left_pad_record"
    unfolding npmClient_get_def by (rule answering_ok) simp
  then show ?thesis
    using CallTool_npm_response [where req = "call ''get_npm_docs'' ''left-pad''"
        and package_name = "JStr ''left-pad''" and p = "''left-pad''" and data = left_pad_record
        and net = "answering (HttpResponse 200 None left_pad_record)" and eng = example_engine
        and log = log]
    by (simp add: left_pad_docs)
qed

lemma CallTool_bare:
  "CallTool example_engine (answering (HttpResponse 200 None bare_npm_record)) (call ''get_npm_docs'' ''bare'') log
   = (Inr [\<lparr>content_type = ''text'', content_text = the (npm_docs example_engine bare_npm_record (JStr ''bare''))\<rparr>],
      log @ [(npmClient, ''/bare'')])"
proof -
  have "npmClient_get (answering (HttpResponse 200 None bare_npm_record)) (''/'' @ ''bare'')
        = Response bare_npm_record"
    unfolding npmClient_get_def by (rule answering_ok) simp
  then show ?thesis
    using CallTool_npm_response [where req = "call ''get_npm_docs'' ''bare''"
        and package_name = "JStr ''bare''" and p = "''bare''" and data = bare_npm_record
        and net = "answering (HttpResponse 200 None bare_npm_record)" and eng = example_engine
        and log = log]
    by (simp add: bare_docs)
qed

lemma CallTool_flask_login:
  "CallTool example_engine (answering (HttpResponse 200 None flask_login_record)) (call ''get_pypi_docs'' ''flask_login'') log
   = (Inr [\<lparr>content_type = ''text'', content_text = the (pypi_docs flask_login_record (JStr ''flask_login''))\<rparr>],
      log @ [(pypiClient, ''/flask_login/json'')])"
proof -
  have "pypiClient_get (answering (HttpResponse 200 None flask_login_record)) (''/'' @ ''flask_login/json'')
        = Response flask_login_record"
    unfolding pypiClient_get_def by (rule answering_ok) simp
  then show ?thesis
    using CallTool_pypi_response [where req = "call ''get_pypi_docs'' ''flask_login''"
        and package_name = "JStr ''flask_login''" and p = "''flask_login''" and data = flask_login_record
        and net = "answering (HttpResponse 200 None flask_login_record)" and eng = example_engine
        and log = log]
    by (simp add: flask_login_docs)
qed

subsection \<open>The engine and the document\<close>






subsection \<open>More example inputs, evaluated\<close>

lemma follow_redirect_numeral:
  "answers url = HttpResponse status (Some target) data \<Longrightarrow> 300 \<le> status \<Longrightarrow> status < 400 \<Longrightarrow>
   0 < redirects \<Longrightarrow> follow answers redirects url = follow answers (redirects - 1) target"
  by (cases redirects) simp_all


lemma npmClient_get_moved:
  "npmClient_get moved_network (''/'' @ ''bare'') = Response bare_npm_record"
proof -
  have "follow (web moved_network) 21 (''https://registry.npmjs.org/'' @ ''bare'')
        = follow (web moved_network) (21 - 1) ''https://registry.npmjs.org/bare/''"
    by (rule follow_redirect_numeral [where status = 301 and data = JNull])
      (simp_all add: moved_network_def)
  also have "\<dots> = settle 200 bare_npm_record"
    by (rule follow_final [where location = None]) (simp_all add: moved_network_def)
  finally show ?thesis
    using npmClient_get_valid [of "''bare''" moved_network]
    by (simp add: settle_def moved_network_def)
qed


subsection \<open>The repository URL\<close>








subsection \<open>Example records with a repository URL\<close>




subsection \<open>The project links\<close>




lemma pypi_record_with_info:
  "get_prop (pypi_record_with urls) ''info''
   = Some (JObj [(''name'', JStr ''pkg''), (''version'', JStr ''1.0''), (''project_urls'', urls)])"
  "get_prop (JObj [(''name'', JStr ''pkg''), (''version'', JStr ''1.0''), (''project_urls'', urls)])
     ''project_urls'' = Some urls"
  by (simp_all add: pypi_record_with_def)


subsection \<open>Records that lack a field\<close>

lemma npm_docs_no_dist_tags:
  "get_prop data ''dist-tags'' = Some JUndefined \<Longrightarrow> npm_docs eng data package_name = None"
  by (simp add: npm_docs_def npm_latest_def)

lemma npm_docs_no_versions:
  "get_prop data ''versions'' = Some JUndefined \<Longrightarrow> npm_docs eng data package_name = None"
  by (simp add: npm_docs_def npm_latest_def get_elem_def split: Option.bind_splits)

lemma npm_docs_no_entry:
  assumes "get_prop data ''dist-tags'' = Some dist_tags"
    and "get_prop dist_tags ''latest'' = Some latest"
    and "to_string latest = Some key"
    and "get_prop data ''versions'' = Some versions"
    and "\<not> has_own versions key" and "\<not> inherited eng versions key"
  shows "npm_docs eng data package_name = None"
proof (cases "npm_docs eng data package_name")
  case None
  then show ?thesis .
next
  case (Some docs)
  then obtain lv ld h where "npm_latest eng data = Some (lv, ld)" and "npm_homepage ld = Some h"
    by (rule npm_docs_blocks)
  moreover from this(1) assms have "ld = JUndefined"
    by (auto simp: npm_latest_def get_elem_def split: if_splits)
  ultimately show ?thesis
    by (simp add: npm_homepage_def)
qed

lemma pypi_docs_no_info:
  "get_prop data ''info'' = Some JUndefined \<Longrightarrow> pypi_docs data package_name = None"
  by (simp add: pypi_docs_def pypi_title_def)

lemma answering_npm:
  "\<not> prefix ''/'' p \<Longrightarrow>
   npmClient_get (answering (HttpResponse 200 None data)) (''/'' @ p) = Response data"
  unfolding npmClient_get_def by (rule answering_ok)

lemma answering_pypi:
  assumes "\<not> prefix ''/'' (p @ ''/json'')"
  shows "pypiClient_get (answering (HttpResponse 200 None data)) (''/'' @ p @ ''/json'') = Response data"
  unfolding pypiClient_get_def using answering_ok [OF assms] by simp

section \<open>The claims\<close>

text \<open>
  C9. The capability list holds the two operations \<^verbatim>\<open>get_npm_docs\<close> and
  \<^verbatim>\<open>get_pypi_docs\<close>, each exactly once, and the input schema of each declares the
  single field \<^verbatim>\<open>package_name\<close>, of type string, and requires it.
\<close>

theorem capability_list:
  "map tool_name ListTools = [''get_npm_docs'', ''get_pypi_docs'']
   \<and> length (filter (\<lambda>t. tool_name t = ''get_npm_docs'') ListTools) = 1
   \<and> length (filter (\<lambda>t. tool_name t = ''get_pypi_docs'') ListTools) = 1
   \<and> map (\<lambda>t. map (\<lambda>(field, schema). (field, prop_type schema)) (properties (inputSchema t))) ListTools
       = [[(''package_name'', ''string'')], [(''package_name'', ''string'')]]
   \<and> map (\<lambda>t. required (inputSchema t)) ListTools = [[''package_name''], [''package_name'']]"
  by (simp add: ListTools_def)

text \<open>
  C3. An invocation whose operation name is neither \<^verbatim>\<open>get_npm_docs\<close> nor
  \<^verbatim>\<open>get_pypi_docs\<close> throws an \<^verbatim>\<open>McpError\<close> of code \<^verbatim>\<open>MethodNotFound\<close> and sends
  no request: the log of fetches is unchanged.
\<close>

theorem unknown_operation:
  assumes "params_name req \<noteq> ''get_npm_docs''" and "params_name req \<noteq> ''get_pypi_docs''"
  shows "CallTool eng net req log
         = (Inl (McpError MethodNotFound (''Unknown tool: '' @ params_name req)), log)"
  using assms by (simp add: CallTool_def)

theorem unknown_operation_witness:
  "CallTool example_engine (answering (NetworkError ''unreachable''))
     \<lparr>params_name = ''get_cargo_docs'', params_arguments = JObj [(''package_name'', JStr ''serde'')]\<rparr>
     [(npmClient, ''/left-pad'')]
   = (Inl (McpError MethodNotFound ''Unknown tool: get_cargo_docs''), [(npmClient, ''/left-pad'')])"
  using unknown_operation [of "\<lparr>params_name = ''get_cargo_docs'', params_arguments = JObj [(''package_name'', JStr ''serde'')]\<rparr>"
      example_engine "answering (NetworkError ''unreachable'')" "[(npmClient, ''/left-pad'')]"]
  by simp

text \<open>
  C4, as amended. For both operations, when the call of \<^verbatim>\<open>get\<close> rejects with an
  \<^verbatim>\<open>AxiosError\<close>, the handler throws an \<^verbatim>\<open>McpError\<close> of code \<^verbatim>\<open>InternalError\<close>
  whose message ends with the message of that error; \<^verbatim>\<open>get\<close> was called exactly once
  (no retry) and no document is returned. For a package name that gives a valid request
  URL the call rejects so when the network gives no answer, and when the answer has a
  status of 300 or more, 404 among them, unless it is a redirect that axios follows
  (a status from 300 to 399 with a \<^verbatim>\<open>Location\<close> header).
\<close>

theorem transport_failure:
  assumes "get_prop (params_arguments req) ''package_name'' = Some package_name"
    and "to_string package_name = Some p"
    and "answer = NetworkError message
         \<or> (\<exists>status location body. answer = HttpResponse status location body
              \<and> 300 \<le> status \<and> (400 \<le> status \<or> location = None)
              \<and> message = ''Request failed with status code '' @ show_nat status)"
  shows "(params_name req = ''get_npm_docs''
          \<and> (npmClient_get net (''/'' @ p) = AxiosError message
              \<or> \<not> prefix ''/'' p \<and> web net (''https://registry.npmjs.org/'' @ p) = answer) \<longrightarrow>
          CallTool eng net req log
          = (Inl (McpError InternalError (''Failed to fetch npm package info: '' @ message)),
             log @ [(npmClient, ''/'' @ p)]))
       \<and> (params_name req = ''get_pypi_docs''
          \<and> (pypiClient_get net (''/'' @ p @ ''/json'') = AxiosError message
              \<or> \<not> prefix ''/'' (p @ ''/json'')
                \<and> web net (''https://pypi.org/pypi/'' @ p @ ''/json'') = answer) \<longrightarrow>
          CallTool eng net req log
          = (Inl (McpError InternalError (''Failed to fetch PyPI package info: '' @ message)),
             log @ [(pypiClient, ''/'' @ p @ ''/json'')]))"
proof -
  have failed: "follow (web net) (maxRedirects net) url = AxiosError message"
    if "web net url = answer" for url
    using assms(3) that
    by (auto simp: follow_network_error follow_final settle_failure)
  have "npmClient_get net (''/'' @ p) = AxiosError message"
    if "\<not> prefix ''/'' p" and "web net (''https://registry.npmjs.org/'' @ p) = answer"
    using that npmClient_get_valid [of p net] failed [of "''https://registry.npmjs.org/'' @ p"]
    by simp
  moreover have "pypiClient_get net (''/'' @ p @ ''/json'') = AxiosError message"
    if "\<not> prefix ''/'' (p @ ''/json'')" and "web net (''https://pypi.org/pypi/'' @ p @ ''/json'') = answer"
    using that pypiClient_get_valid [of p net] failed [of "''https://pypi.org/pypi/'' @ p @ ''/json''"]
    by simp
  ultimately show ?thesis
    using assms(1,2) CallTool_npm_failure [of req package_name p net message eng log]
      CallTool_pypi_failure [of req package_name p net message eng log]
    by blast
qed

theorem transport_failure_witness:
  "CallTool example_engine (answering (HttpResponse 404 None (JObj [(''error'', JStr ''Not found'')])))
     (call ''get_npm_docs'' ''no-such-package'') []
   = (Inl (McpError InternalError ''Failed to fetch npm package info: Request failed with status code 404''),
      [(npmClient, ''/no-such-package'')])
   \<and> CallTool example_engine (answering (NetworkError ''connect ECONNREFUSED''))
     (call ''get_pypi_docs'' ''requests'') []
   = (Inl (McpError InternalError ''Failed to fetch PyPI package info: connect ECONNREFUSED''),
      [(pypiClient, ''/requests/json'')])"
  using transport_failure [where req = "call ''get_npm_docs'' ''no-such-package''"
      and package_name = "JStr ''no-such-package''" and p = "''no-such-package''"
      and answer = "HttpResponse 404 None (JObj [(''error'', JStr ''Not found'')])"
      and message = "''Request failed with status code 404''"
      and net = "answering (HttpResponse 404 None (JObj [(''error'', JStr ''Not found'')]))"
      and eng = example_engine and log = "[]"]
    transport_failure [where req = "call ''get_pypi_docs'' ''requests''"
      and package_name = "JStr ''requests''" and p = "''requests''"
      and answer = "NetworkError ''connect ECONNREFUSED''"
      and message = "''connect ECONNREFUSED''"
      and net = "answering (NetworkError ''connect ECONNREFUSED'')"
      and eng = example_engine and log = "[]"]
  by (simp add: answering_def show_nat.simps digit_char_def)

text \<open>
  C4 as it was stated fails for a redirect: the registry answers the request with the
  status 301 and a \<^verbatim>\<open>Location\<close>, axios follows it, and the invocation returns a
  document.
\<close>

theorem redirect_followed:
  "web moved_network ''https://registry.npmjs.org/bare''
   = HttpResponse 301 (Some ''https://registry.npmjs.org/bare/'') JNull
   \<and> CallTool example_engine moved_network (call ''get_npm_docs'' ''bare'') []
   = (Inr [\<lparr>content_type = ''text'', content_text = ''# bare v0.0.1\<newline>\<newline>## Installation\<newline>\<newline>```bash\<newline>npm install bare\<newline>```\<newline>\<newline>## Homepage\<newline>https://x\<newline>\<newline>''\<rparr>], [(npmClient, ''/bare'')])"
  using npmClient_get_moved
    CallTool_npm_response [where req = "call ''get_npm_docs'' ''bare''"
        and package_name = "JStr ''bare''" and p = "''bare''" and data = bare_npm_record
        and net = moved_network and eng = example_engine and log = "[]"]
  by (simp add: bare_docs moved_network_def)

text \<open>
  C6. Every successful invocation of either operation returns one text block whose
  document contains the Installation section with the install command of the registry
  (\<^verbatim>\<open>npm install\<close>, \<^verbatim>\<open>pip install\<close>) followed by the \<^verbatim>\<open>package_name\<close> of the
  request as the template literal prints it, which for a string is the string itself.
  The name comes from the arguments of the request, not from the record, and no field of
  the record decides whether the section is there.
\<close>

theorem installation_section:
  assumes "CallTool eng net req log = (Inr blocks, log')"
  shows "\<exists>package_name p docs.
      get_prop (params_arguments req) ''package_name'' = Some package_name
    \<and> to_string package_name = Some p
    \<and> (\<forall>s. package_name = JStr s \<longrightarrow> p = s)
    \<and> blocks = [\<lparr>content_type = ''text'', content_text = docs\<rparr>]
    \<and> (params_name req = ''get_npm_docs'' \<or> params_name req = ''get_pypi_docs'')
    \<and> (params_name req = ''get_npm_docs'' \<longrightarrow>
         sublist (''## Installation\<newline>\<newline>```bash\<newline>npm install '' @ p @ ''\<newline>```\<newline>\<newline>'') docs)
    \<and> (params_name req = ''get_pypi_docs'' \<longrightarrow>
         sublist (''## Installation\<newline>\<newline>```bash\<newline>pip install '' @ p @ ''\<newline>```\<newline>\<newline>'') docs)"
  using assms
proof (cases rule: CallTool_success)
  case npm
  from npm(2) obtain package_name p data docs where
    "get_prop (params_arguments req) ''package_name'' = Some package_name"
    and "to_string package_name = Some p"
    and "npm_docs eng data package_name = Some docs"
    and "blocks = [\<lparr>content_type = ''text'', content_text = docs\<rparr>]"
    by (rule get_npm_docs_success)
  with npm(1) show ?thesis
    using npm_docs_installation [of eng data package_name docs p] by auto
next
  case pypi
  from pypi(2) obtain package_name p data docs where
    "get_prop (params_arguments req) ''package_name'' = Some package_name"
    and "to_string package_name = Some p"
    and "pypi_docs data package_name = Some docs"
    and "blocks = [\<lparr>content_type = ''text'', content_text = docs\<rparr>]"
    by (rule get_pypi_docs_success)
  with pypi(1) show ?thesis
    using pypi_docs_installation [of data package_name docs p] by auto
qed

theorem installation_section_witness:
  "CallTool example_engine (answering (HttpResponse 200 None left_pad_record))
     (call ''get_npm_docs'' ''left-pad'') []
   = (Inr [\<lparr>content_type = ''text'', content_text = ''# left-pad v1.3.0\<newline>\<newline>String left pad\<newline>\<newline>## Installation\<newline>\<newline>```bash\<newline>npm install left-pad\<newline>```\<newline>\<newline>## Homepage\<newline>https://github.com/stevemao/left-pad#readme\<newline>\<newline>## Repository\<newline>https://github.com/stevemao/left-pad.git\<newline>\<newline>## Keywords\<newline>leftpad, left, pad\<newline>\<newline>## Documentation\<newline>\<newline>## left-pad\<newline>''\<rparr>], [(npmClient, ''/left-pad'')])
   \<and> sublist ''## Installation\<newline>\<newline>```bash\<newline>npm install left-pad\<newline>```\<newline>\<newline>''
       ''# left-pad v1.3.0\<newline>\<newline>String left pad\<newline>\<newline>## Installation\<newline>\<newline>```bash\<newline>npm install left-pad\<newline>```\<newline>\<newline>## Homepage\<newline>https://github.com/stevemao/left-pad#readme\<newline>\<newline>## Repository\<newline>https://github.com/stevemao/left-pad.git\<newline>\<newline>## Keywords\<newline>leftpad, left, pad\<newline>\<newline>## Documentation\<newline>\<newline>## left-pad\<newline>''
   \<and> CallTool example_engine (answering (HttpResponse 200 None flask_login_record))
     (call ''get_pypi_docs'' ''flask_login'') []
   = (Inr [\<lparr>content_type = ''text'', content_text = ''# Flask-Login v0.6.3\<newline>\<newline>User authentication and session management for Flask.\<newline>\<newline>## Installation\<newline>\<newline>```bash\<newline>pip install flask_login\<newline>```\<newline>\<newline>## Homepage\<newline>https://github.com/maxcountryman/flask-login\<newline>\<newline>## Project Links\<newline>- Docs: https://d\<newline>- Source: https://s\<newline>\<newline>## Keywords\<newline>flask, login\<newline>\<newline>## Documentation\<newline>\<newline>Flask-Login provides user session management.\<newline>''\<rparr>], [(pypiClient, ''/flask_login/json'')])
   \<and> sublist ''## Installation\<newline>\<newline>```bash\<newline>pip install flask_login\<newline>```\<newline>\<newline>''
       ''# Flask-Login v0.6.3\<newline>\<newline>User authentication and session management for Flask.\<newline>\<newline>## Installation\<newline>\<newline>```bash\<newline>pip install flask_login\<newline>```\<newline>\<newline>## Homepage\<newline>https://github.com/maxcountryman/flask-login\<newline>\<newline>## Project Links\<newline>- Docs: https://d\<newline>- Source: https://s\<newline>\<newline>## Keywords\<newline>flask, login\<newline>\<newline>## Documentation\<newline>\<newline>Flask-Login provides user session management.\<newline>''"
proof -
  have npm: "CallTool example_engine (answering (HttpResponse 200 None left_pad_record))
     (call ''get_npm_docs'' ''left-pad'') []
   = (Inr [\<lparr>content_type = ''text'', content_text = ''# left-pad v1.3.0\<newline>\<newline>String left pad\<newline>\<newline>## Installation\<newline>\<newline>```bash\<newline>npm install left-pad\<newline>```\<newline>\<newline>## Homepage\<newline>https://github.com/stevemao/left-pad#readme\<newline>\<newline>## Repository\<newline>https://github.com/stevemao/left-pad.git\<newline>\<newline>## Keywords\<newline>leftpad, left, pad\<newline>\<newline>## Documentation\<newline>\<newline>## left-pad\<newline>''\<rparr>], [(npmClient, ''/left-pad'')])"
    by (simp add: CallTool_left_pad left_pad_docs)
  have pypi: "CallTool example_engine (answering (HttpResponse 200 None flask_login_record))
     (call ''get_pypi_docs'' ''flask_login'') []
   = (Inr [\<lparr>content_type = ''text'', content_text = ''# Flask-Login v0.6.3\<newline>\<newline>User authentication and session management for Flask.\<newline>\<newline>## Installation\<newline>\<newline>```bash\<newline>pip install flask_login\<newline>```\<newline>\<newline>## Homepage\<newline>https://github.com/maxcountryman/flask-login\<newline>\<newline>## Project Links\<newline>- Docs: https://d\<newline>- Source: https://s\<newline>\<newline>## Keywords\<newline>flask, login\<newline>\<newline>## Documentation\<newline>\<newline>Flask-Login provides user session management.\<newline>''\<rparr>], [(pypiClient, ''/flask_login/json'')])"
    by (simp add: CallTool_flask_login flask_login_docs)
  from installation_section [OF npm] installation_section [OF pypi] npm pypi show ?thesis
    by auto
qed

text \<open>
  C7. For every pair of records of one registry that render, each document is the
  concatenation of its present sections, the sections of each appear in the order fixed
  for the registry (a subsequence of it), the sections common to both appear in the same
  relative order in both, and each present section begins with its own heading: which
  fields are present decides which sections are included, never where they stand.
\<close>

theorem section_order_fixed:
  assumes "docs_of eng reg dataA pA = Some docA" and "docs_of eng reg dataB pB = Some docB"
  shows "\<exists>secsA secsB.
    sections_of eng reg dataA pA = Some secsA \<and> sections_of eng reg dataB pB = Some secsB
    \<and> docA = concat (map snd secsA) \<and> docB = concat (map snd secsB)
    \<and> subseq (map fst secsA) (order_of reg) \<and> subseq (map fst secsB) (order_of reg)
    \<and> filter (\<lambda>s. s \<in> set (map fst secsB)) (map fst secsA)
        = filter (\<lambda>s. s \<in> set (map fst secsA)) (map fst secsB)
    \<and> list_all (\<lambda>(s, t). prefix (heading s) t) (secsA @ secsB)"
proof -
  from assms(1) obtain secsA where s1: "sections_of eng reg dataA pA = Some secsA"
    and d1: "docA = concat (map snd secsA)"
    by (auto simp: docs_of_sections)
  from assms(2) obtain secsB where s2: "sections_of eng reg dataB pB = Some secsB"
    and d2: "docB = concat (map snd secsB)"
    by (auto simp: docs_of_sections)
  have o1: "subseq (map fst secsA) (order_of reg)" and o2: "subseq (map fst secsB) (order_of reg)"
    using s1 s2 by (simp_all add: sections_of_ordered)
  have "filter (\<lambda>s. s \<in> set (map fst secsB)) (map fst secsA)
        = filter (\<lambda>s. s \<in> set (map fst secsA)) (map fst secsB)"
    by (rule same_relative_order [OF o1 o2 distinct_order_of])
  moreover have "list_all (\<lambda>(s, t). prefix (heading s) t) (secsA @ secsB)"
    using sections_of_headings [OF s1] sections_of_headings [OF s2] by simp
  ultimately show ?thesis
    using s1 s2 d1 d2 o1 o2 by simp
qed

theorem section_order_fixed_witness:
  "\<exists>secsA secsB.
    sections_of example_engine Npm left_pad_record (JStr ''left-pad'') = Some secsA
    \<and> sections_of example_engine Npm bare_npm_record (JStr ''bare'') = Some secsB
    \<and> ''# left-pad v1.3.0\<newline>\<newline>String left pad\<newline>\<newline>## Installation\<newline>\<newline>```bash\<newline>npm install left-pad\<newline>```\<newline>\<newline>## Homepage\<newline>https://github.com/stevemao/left-pad#readme\<newline>\<newline>## Repository\<newline>https://github.com/stevemao/left-pad.git\<newline>\<newline>## Keywords\<newline>leftpad, left, pad\<newline>\<newline>## Documentation\<newline>\<newline>## left-pad\<newline>'' = concat (map snd secsA)
    \<and> ''# bare v0.0.1\<newline>\<newline>## Installation\<newline>\<newline>```bash\<newline>npm install bare\<newline>```\<newline>\<newline>## Homepage\<newline>https://x\<newline>\<newline>'' = concat (map snd secsB)
    \<and> subseq (map fst secsA) (order_of Npm) \<and> subseq (map fst secsB) (order_of Npm)
    \<and> filter (\<lambda>s. s \<in> set (map fst secsB)) (map fst secsA)
        = filter (\<lambda>s. s \<in> set (map fst secsA)) (map fst secsB)
    \<and> list_all (\<lambda>(s, t). prefix (heading s) t) (secsA @ secsB)"
  using section_order_fixed [where eng = example_engine and reg = Npm and dataA = left_pad_record
      and pA = "JStr ''left-pad''" and dataB = bare_npm_record and pB = "JStr ''bare''"
      and docA = "''# left-pad v1.3.0\<newline>\<newline>String left pad\<newline>\<newline>## Installation\<newline>\<newline>```bash\<newline>npm install left-pad\<newline>```\<newline>\<newline>## Homepage\<newline>https://github.com/stevemao/left-pad#readme\<newline>\<newline>## Repository\<newline>https://github.com/stevemao/left-pad.git\<newline>\<newline>## Keywords\<newline>leftpad, left, pad\<newline>\<newline>## Documentation\<newline>\<newline>## left-pad\<newline>''"
      and docB = "''# bare v0.0.1\<newline>\<newline>## Installation\<newline>\<newline>```bash\<newline>npm install bare\<newline>```\<newline>\<newline>## Homepage\<newline>https://x\<newline>\<newline>''"]
  by (simp only: docs_of.simps left_pad_docs bare_docs simp_thms)











text \<open>
  C5, as amended. For every response with a success status, the handler throws the
  \<^verbatim>\<open>TypeError\<close> of a runtime fault, not an \<^verbatim>\<open>McpError\<close>, after its one call of
  \<^verbatim>\<open>get\<close>: for npm when the body has no \<^verbatim>\<open>dist-tags\<close>, or no \<^verbatim>\<open>versions\<close>, or
  when \<^verbatim>\<open>versions\<close> has no property, own or inherited, under the key that
  \<^verbatim>\<open>dist-tags.latest\<close> converts to (the key \<^verbatim>\<open>undefined\<close> when \<^verbatim>\<open>latest\<close> is
  absent); for PyPI when the body has no \<^verbatim>\<open>info\<close>.
\<close>

theorem schema_mismatch:
  assumes "get_prop (params_arguments req) ''package_name'' = Some package_name"
    and "to_string package_name = Some p"
  shows "(params_name req = ''get_npm_docs'' \<and> npmClient_get net (''/'' @ p) = Response data
          \<and> (get_prop data ''dist-tags'' = Some JUndefined
              \<or> get_prop data ''versions'' = Some JUndefined
              \<or> (\<exists>dist_tags latest key versions.
                    get_prop data ''dist-tags'' = Some dist_tags
                  \<and> get_prop dist_tags ''latest'' = Some latest
                  \<and> to_string latest = Some key
                  \<and> get_prop data ''versions'' = Some versions
                  \<and> \<not> has_own versions key \<and> \<not> inherited eng versions key)) \<longrightarrow>
          CallTool eng net req log = (Inl TypeError, log @ [(npmClient, ''/'' @ p)]))
       \<and> (params_name req = ''get_pypi_docs'' \<and> pypiClient_get net (''/'' @ p @ ''/json'') = Response data
          \<and> get_prop data ''info'' = Some JUndefined \<longrightarrow>
          CallTool eng net req log = (Inl TypeError, log @ [(pypiClient, ''/'' @ p @ ''/json'')]))"
proof (intro conjI impI)
  assume a: "params_name req = ''get_npm_docs'' \<and> npmClient_get net (''/'' @ p) = Response data
          \<and> (get_prop data ''dist-tags'' = Some JUndefined
              \<or> get_prop data ''versions'' = Some JUndefined
              \<or> (\<exists>dist_tags latest key versions.
                    get_prop data ''dist-tags'' = Some dist_tags
                  \<and> get_prop dist_tags ''latest'' = Some latest
                  \<and> to_string latest = Some key
                  \<and> get_prop data ''versions'' = Some versions
                  \<and> \<not> has_own versions key \<and> \<not> inherited eng versions key))"
  then have name: "params_name req = ''get_npm_docs''"
    and got: "npmClient_get net (''/'' @ p) = Response data"
    by simp_all
  from a have "get_prop data ''dist-tags'' = Some JUndefined
              \<or> get_prop data ''versions'' = Some JUndefined
              \<or> (\<exists>dist_tags latest key versions.
                    get_prop data ''dist-tags'' = Some dist_tags
                  \<and> get_prop dist_tags ''latest'' = Some latest
                  \<and> to_string latest = Some key
                  \<and> get_prop data ''versions'' = Some versions
                  \<and> \<not> has_own versions key \<and> \<not> inherited eng versions key)"
    by simp
  then have "npm_docs eng data package_name = None"
  proof (elim disjE exE conjE)
    assume "get_prop data ''dist-tags'' = Some JUndefined"
    then show ?thesis by (rule npm_docs_no_dist_tags)
  next
    assume "get_prop data ''versions'' = Some JUndefined"
    then show ?thesis by (rule npm_docs_no_versions)
  next
    fix dist_tags latest key versions
    assume "get_prop data ''dist-tags'' = Some dist_tags"
      and "get_prop dist_tags ''latest'' = Some latest"
      and "to_string latest = Some key"
      and "get_prop data ''versions'' = Some versions"
      and "\<not> has_own versions key" and "\<not> inherited eng versions key"
    then show ?thesis by (rule npm_docs_no_entry)
  qed
  then show "CallTool eng net req log = (Inl TypeError, log @ [(npmClient, ''/'' @ p)])"
    using CallTool_npm_response [OF name assms got, of eng log] by simp
next
  assume a: "params_name req = ''get_pypi_docs'' \<and> pypiClient_get net (''/'' @ p @ ''/json'') = Response data
          \<and> get_prop data ''info'' = Some JUndefined"
  then have name: "params_name req = ''get_pypi_docs''"
    and got: "pypiClient_get net (''/'' @ p @ ''/json'') = Response data"
    and "get_prop data ''info'' = Some JUndefined"
    by simp_all
  then have "pypi_docs data package_name = None"
    by (simp add: pypi_docs_no_info)
  then show "CallTool eng net req log = (Inl TypeError, log @ [(pypiClient, ''/'' @ p @ ''/json'')])"
    using CallTool_pypi_response [OF name assms got, of eng log] by simp
qed

theorem schema_mismatch_witness:
  "CallTool example_engine
     (answering (HttpResponse 200 None (JObj
        [(''name'', JStr ''pkg''),
         (''dist-tags'', JObj [(''latest'', JStr ''2.0.0'')]),
         (''versions'', JObj [(''1.0.0'', JObj [])])])))
     (call ''get_npm_docs'' ''pkg'') []
   = (Inl TypeError, [(npmClient, ''/pkg'')])
   \<and> CallTool example_engine
     (answering (HttpResponse 200 None (JObj [(''message'', JStr ''Not Found'')])))
     (call ''get_pypi_docs'' ''pkg'') []
   = (Inl TypeError, [(pypiClient, ''/pkg/json'')])"
  using schema_mismatch [where req = "call ''get_npm_docs'' ''pkg''" and package_name = "JStr ''pkg''"
      and p = "''pkg''" and eng = example_engine and log = "[]"
      and net = "answering (HttpResponse 200 None (JObj
        [(''name'', JStr ''pkg''),
         (''dist-tags'', JObj [(''latest'', JStr ''2.0.0'')]),
         (''versions'', JObj [(''1.0.0'', JObj [])])]))"
      and data = "JObj
        [(''name'', JStr ''pkg''),
         (''dist-tags'', JObj [(''latest'', JStr ''2.0.0'')]),
         (''versions'', JObj [(''1.0.0'', JObj [])])]"]
    schema_mismatch [where req = "call ''get_pypi_docs'' ''pkg''" and package_name = "JStr ''pkg''"
      and p = "''pkg''" and eng = example_engine and log = "[]"
      and net = "answering (HttpResponse 200 None (JObj [(''message'', JStr ''Not Found'')]))"
      and data = "JObj [(''message'', JStr ''Not Found'')]"]
    answering_npm [of "''pkg''"] answering_pypi [of "''pkg''"]
  by (simp add: example_engine_def)

text \<open>
  C5 as it was stated fails for a body without \<^verbatim>\<open>dist-tags.latest\<close> whose
  \<^verbatim>\<open>versions\<close> has an entry under the key \<^verbatim>\<open>undefined\<close>: the absent version is
  converted to that key, the entry is found, and the invocation returns a document.
\<close>

theorem undefined_version_renders:
  "get_prop (JObj []) ''latest'' = Some JUndefined
   \<and> CallTool example_engine
     (answering (HttpResponse 200 None (JObj
        [(''name'', JStr ''x''),
         (''dist-tags'', JObj []),
         (''versions'', JObj [(''undefined'', JObj [])])])))
     (call ''get_npm_docs'' ''x'') []
   = (Inr [\<lparr>content_type = ''text'',
            content_text = ''# x vundefined\<newline>\<newline>## Installation\<newline>\<newline>```bash\<newline>npm install x\<newline>```\<newline>\<newline>''\<rparr>],
      [(npmClient, ''/x'')])"
  using CallTool_npm_response [where req = "call ''get_npm_docs'' ''x''" and package_name = "JStr ''x''"
      and p = "''x''" and eng = example_engine and log = "[]"
      and net = "answering (HttpResponse 200 None (JObj
        [(''name'', JStr ''x''),
         (''dist-tags'', JObj []),
         (''versions'', JObj [(''undefined'', JObj [])])]))"
      and data = "JObj
        [(''name'', JStr ''x''),
         (''dist-tags'', JObj []),
         (''versions'', JObj [(''undefined'', JObj [])])]"]
    answering_npm [of "''x''"]
  by (simp add: npm_docs_def npm_blocks_defs)

end
